theory Spec2Isabelle
  imports Complex_Main "HOL-Library.Log_Nat"
begin

section \<open>Timelytics: rule-based delivery-time estimation\<close>

text \<open>
  Shallow embedding of the decision logic of \<^verbatim>\<open>timelytics_app.py\<close>:
  \<^verbatim>\<open>create_prediction_model\<close>, \<^verbatim>\<open>predict_delivery_time\<close>,
  \<^verbatim>\<open>generate_sample_data\<close>, \<^verbatim>\<open>hours_to_readable\<close> and
  \<^verbatim>\<open>get_delivery_insights\<close>.

  Conventions of the embedding.
  \<^item> Python \<^verbatim>\<open>str\<close> values are \<open>string\<close>s. The advisory notes start with an emoji;
    those code points are written as their UTF-8 bytes, which keeps string equality
    (the only string operation the program uses besides concatenation) exact.
  \<^item> A Python \<^verbatim>\<open>float\<close> is an IEEE binary64 number. It is modelled by the real number
    it denotes; every float operation computes the exact result and rounds it to the
    nearest binary64 value, a tie going to the even significand (\<open>fl\<close>). A decimal
    literal \<^verbatim>\<open>d\<close> of the source denotes \<open>fl d\<close>. The exponent range is taken as
    unbounded: infinities, NaN, subnormal numbers and the sign of zero are outside the
    model.
  \<^item> The float drawn by \<^verbatim>\<open>np.random.uniform(0.9, 1.1)\<close> is an explicit argument
    named \<open>variation\<close>, as in the source.
  \<^item> A failing subscript \<^verbatim>\<open>d[k]\<close> raises \<^verbatim>\<open>KeyError(k)\<close>; results that can raise
    have type \<open>error + 'a\<close>.
  \<^item> \<^verbatim>\<open>get_delivery_date\<close> reads the wall clock and formats through the platform's
    \<^verbatim>\<open>strftime\<close>; it is not embedded.
\<close>

subsection \<open>Python built-ins used by the program\<close>

datatype error = KeyError string

type_synonym ('k, 'v) dict = "('k \<times> 'v) list"

text \<open>\<^verbatim>\<open>d.get(k, default)\<close>\<close>

definition dict_get :: "('k, 'v) dict \<Rightarrow> 'k \<Rightarrow> 'v \<Rightarrow> 'v" where
  "dict_get d k dflt = (case map_of d k of None \<Rightarrow> dflt | Some v \<Rightarrow> v)"

text \<open>\<^verbatim>\<open>d[k]\<close>\<close>

definition dict_getitem :: "(string, 'v) dict \<Rightarrow> string \<Rightarrow> error + 'v" where
  "dict_getitem d k = (case map_of d k of None \<Rightarrow> Inl (KeyError k) | Some v \<Rightarrow> Inr v)"

text \<open>Rounding a real to the nearest integer, a tie going to the even neighbour.\<close>

definition round_half_even :: "real \<Rightarrow> int" where
  "round_half_even y =
     (let f = \<lfloor>y\<rfloor>; d = y - of_int f
      in if d < 1 / 2 then f
         else if 1 / 2 < d then f + 1
         else if even f then f else f + 1)"

text \<open>
  Binary64 rounding. For \<open>0 < x\<close>, \<open>binade x\<close> is the exponent \<open>e\<close> with
  \<open>2 ^ e \<le> x < 2 ^ (e + 1)\<close>; the floats of that binade are the multiples of
  \<open>2 ^ (e - 52)\<close>, and \<open>fl x\<close> is the multiple nearest to \<open>x\<close>.
\<close>

definition binade :: "real \<Rightarrow> int" where
  "binade x = (if 1 \<le> x then bitlen \<lfloor>x\<rfloor> - 1 else - bitlen (\<lceil>1 / x\<rceil> - 1))"

definition fl :: "real \<Rightarrow> real" where
  "fl x = (if x = 0 then 0
           else (let u = 2 powi (binade \<bar>x\<bar> - 52)
                 in of_int (round_half_even (x / u)) * u))"

text \<open>The reals that are floats.\<close>

definition is_float :: "real \<Rightarrow> bool" where
  "is_float x = (fl x = x)"

text \<open>The float operators \<^verbatim>\<open>*\<close>, \<^verbatim>\<open>+\<close>, \<^verbatim>\<open>-\<close>, \<^verbatim>\<open>/\<close>, and the conversion of an \<^verbatim>\<open>int\<close>
  operand in mixed arithmetic.\<close>

definition float_mul :: "real \<Rightarrow> real \<Rightarrow> real" where
  "float_mul x y = fl (x * y)"

definition float_add :: "real \<Rightarrow> real \<Rightarrow> real" where
  "float_add x y = fl (x + y)"

definition float_sub :: "real \<Rightarrow> real \<Rightarrow> real" where
  "float_sub x y = fl (x - y)"

definition float_div :: "real \<Rightarrow> real \<Rightarrow> real" where
  "float_div x y = fl (x / y)"

definition float_of_int :: "int \<Rightarrow> real" where
  "float_of_int i = fl (of_int i)"

text \<open>
  \<^verbatim>\<open>round(x, ndigits)\<close> on a float \<open>x\<close>: the exact value of \<open>x\<close> is rounded to the
  nearest multiple of \<open>10 ^ - ndigits\<close>, a tie going to the even neighbour, and the
  result is the float nearest to that decimal.
\<close>

definition py_round :: "real \<Rightarrow> nat \<Rightarrow> real" where
  "py_round x ndigits = fl (of_int (round_half_even (x * 10 ^ ndigits)) / 10 ^ ndigits)"

subsection \<open>Rate tables\<close>

definition category_times :: "(string, int) dict" where
  "category_times =
     [(''Electronics'', 48),
      (''Clothing'', 36),
      (''Books'', 24),
      (''Home & Garden'', 72),
      (''Sports'', 48),
      (''Beauty'', 36),
      (''Toys'', 48)]"

definition location_multipliers :: "(string, real) dict" where
  "location_multipliers =
     [(''Urban'', fl 0.8),
      (''Suburban'', fl 1.0),
      (''Rural'', fl 1.3)]"

definition shipping_multipliers :: "(string, real) dict" where
  "shipping_multipliers =
     [(''Overnight'', fl 0.3),
      (''Express'', fl 0.6),
      (''Standard'', fl 1.0),
      (''Economy'', fl 1.4)]"

definition create_prediction_model ::
  "(string, int) dict \<times> (string, real) dict \<times> (string, real) dict" where
  "create_prediction_model = (category_times, location_multipliers, shipping_multipliers)"

subsection \<open>The estimator\<close>

text \<open>
  The two subscripts are evaluated left to right, before the random draw, so an
  unknown location is reported before an unknown shipping method. The products are
  float products, taken left to right; \<^verbatim>\<open>max(2, r)\<close> compares exactly. The argument
  \<open>variation\<close> is the float the random source returned.
\<close>

definition predict_delivery_time :: "real \<Rightarrow> string \<Rightarrow> string \<Rightarrow> string \<Rightarrow> error + real" where
  "predict_delivery_time variation category location shipping =
     (case create_prediction_model of (cat_times, loc_mults, ship_mults) \<Rightarrow>
        (let base_time = dict_get cat_times category 48 in
         (case dict_getitem loc_mults location of
            Inl e \<Rightarrow> Inl e
          | Inr loc_mult \<Rightarrow>
              (case dict_getitem ship_mults shipping of
                 Inl e \<Rightarrow> Inl e
               | Inr ship_mult \<Rightarrow>
                   (let predicted_time =
                          float_mul (float_mul (float_of_int base_time) loc_mult) ship_mult;
                        predicted_time = float_mul predicted_time variation
                    in Inr (max 2 (py_round predicted_time 1)))))))"

subsection \<open>Sample data for the charts\<close>

text \<open>
  One row of the data frame; the source's column names are
  \<^verbatim>\<open>'Product Category'\<close>, \<^verbatim>\<open>'Location'\<close>, \<^verbatim>\<open>'Shipping Method'\<close> and
  \<^verbatim>\<open>'Delivery Time (Hours)'\<close>.
\<close>

record sample_row =
  row_category :: string
  row_location :: string
  row_shipping :: string
  row_delivery_time :: real

definition categories :: "string list" where
  "categories =
     [''Electronics'', ''Clothing'', ''Books'', ''Home & Garden'', ''Sports'', ''Beauty'', ''Toys'']"

definition locations :: "string list" where
  "locations = [''Urban'', ''Suburban'', ''Rural'']"

definition shipping_methods :: "string list" where
  "shipping_methods = [''Standard'', ''Express'', ''Overnight'', ''Economy'']"

text \<open>
  The three nested \<^verbatim>\<open>for\<close> loops. The state is the list \<^verbatim>\<open>data\<close> together with
  the number of variates drawn from the random source so far; \<open>rng k\<close> is the value the
  \<open>k\<close>-th draw returns. An exception of the estimator leaves the loops.
\<close>

fun shipping_loop ::
  "(nat \<Rightarrow> real) \<Rightarrow> string \<Rightarrow> string \<Rightarrow> string list \<Rightarrow> sample_row list \<times> nat
     \<Rightarrow> error + sample_row list \<times> nat" where
  "shipping_loop rng category location [] st = Inr st"
| "shipping_loop rng category location (shipping # rest) (data, k) =
     (case predict_delivery_time (rng k) category location shipping of
        Inl e \<Rightarrow> Inl e
      | Inr delivery_time \<Rightarrow>
          shipping_loop rng category location rest
            (data @ [\<lparr>row_category = category, row_location = location,
                      row_shipping = shipping, row_delivery_time = delivery_time\<rparr>],
             Suc k))"

fun location_loop ::
  "(nat \<Rightarrow> real) \<Rightarrow> string \<Rightarrow> string list \<Rightarrow> sample_row list \<times> nat
     \<Rightarrow> error + sample_row list \<times> nat" where
  "location_loop rng category [] st = Inr st"
| "location_loop rng category (location # rest) st =
     (case shipping_loop rng category location shipping_methods st of
        Inl e \<Rightarrow> Inl e
      | Inr st' \<Rightarrow> location_loop rng category rest st')"

fun category_loop ::
  "(nat \<Rightarrow> real) \<Rightarrow> string list \<Rightarrow> sample_row list \<times> nat
     \<Rightarrow> error + sample_row list \<times> nat" where
  "category_loop rng [] st = Inr st"
| "category_loop rng (category # rest) st =
     (case location_loop rng category locations st of
        Inl e \<Rightarrow> Inl e
      | Inr st' \<Rightarrow> category_loop rng rest st')"

definition generate_sample_data :: "(nat \<Rightarrow> real) \<Rightarrow> error + sample_row list \<times> nat" where
  "generate_sample_data rng = category_loop rng categories ([], 0)"

subsection \<open>Readable durations\<close>

text \<open>\<^verbatim>\<open>int(x)\<close> on a float truncates towards zero.\<close>

definition py_int :: "real \<Rightarrow> int" where
  "py_int x = (if 0 \<le> x then \<lfloor>x\<rfloor> else \<lceil>x\<rceil>)"

text \<open>
  \<^verbatim>\<open>x // y\<close> and \<^verbatim>\<open>x % y\<close> on floats, for a divisor \<open>y \<noteq> 0\<close> (the program only
  divides by the literal 24), as the interpreter computes them. The C function
  \<^verbatim>\<open>fmod\<close> is exact: it subtracts from \<open>x\<close> the multiple of \<open>y\<close> given by the
  truncated quotient. The quotient is then formed in float arithmetic from
  \<open>x - mod\<close>, corrected to the sign of the divisor, and snapped to an integral value.
  The interpreter's variables \<^verbatim>\<open>mod\<close> and \<^verbatim>\<open>div\<close> are named \<open>rmd\<close> and \<open>quo\<close>.
\<close>

definition fmod :: "real \<Rightarrow> real \<Rightarrow> real" where
  "fmod x y = x - y * of_int (py_int (x / y))"

definition float_div_mod :: "real \<Rightarrow> real \<Rightarrow> real \<times> real" where
  "float_div_mod vx wx =
     (let rmd = fmod vx wx;
          quo = float_div (float_sub vx rmd) wx;
          (rmd, quo) = (if rmd \<noteq> 0 \<and> ((wx < 0) \<noteq> (rmd < 0))
                        then (float_add rmd wx, float_sub quo 1)
                        else (rmd, quo));
          floordiv = (if quo \<noteq> 0
                      then (let f = of_int \<lfloor>quo\<rfloor>
                            in if float_sub quo f > 1 / 2 then float_add f 1 else f)
                      else 0)
      in (floordiv, rmd))"

definition py_floordiv :: "real \<Rightarrow> real \<Rightarrow> real" where
  "py_floordiv x y = fst (float_div_mod x y)"

definition py_mod :: "real \<Rightarrow> real \<Rightarrow> real" where
  "py_mod x y =
     (let rmd = fmod x y
      in if rmd \<noteq> 0 \<and> ((y < 0) \<noteq> (rmd < 0)) then float_add rmd y else rmd)"

text \<open>Decimal rendering of an integer, as an f-string does it.\<close>

definition digit_char :: "nat \<Rightarrow> char" where
  "digit_char d = ''0123456789'' ! d"

fun str_nat :: "nat \<Rightarrow> string" where
  "str_nat n = (if n < 10 then [digit_char n] else str_nat (n div 10) @ [digit_char (n mod 10)])"

declare str_nat.simps [simp del]

definition str_int :: "int \<Rightarrow> string" where
  "str_int i = (if i < 0 then CHR ''-'' # str_nat (nat (- i)) else str_nat (nat i))"

definition hours_to_readable :: "real \<Rightarrow> string" where
  "hours_to_readable hours =
     (if hours < 24 then str_int (py_int hours) @ '' hours''
      else
        (let days = py_int (py_floordiv hours 24);
             remaining_hours = py_int (py_mod hours 24)
         in if remaining_hours = 0
            then str_int days @ '' day'' @ (if days > 1 then ''s'' else [])
            else str_int days @ '' day'' @ (if days > 1 then ''s'' else [])
                 @ '' and '' @ str_int remaining_hours
                 @ '' hour'' @ (if remaining_hours > 1 then ''s'' else [])))"

subsection \<open>Insights\<close>

text \<open>
  The eight string literals of \<^verbatim>\<open>get_delivery_insights\<close>. Each starts with an emoji,
  given here by its UTF-8 bytes.
\<close>

definition overnight_note :: string where
  "overnight_note = [CHR 0xF0, CHR 0x9F, CHR 0x9A, CHR 0x80]
     @ '' Overnight shipping selected - fastest delivery option!''"

definition economy_note :: string where
  "economy_note = [CHR 0xF0, CHR 0x9F, CHR 0x92, CHR 0xB0]
     @ '' Economy shipping selected - budget-friendly option with longer delivery time''"

definition rural_note :: string where
  "rural_note = [CHR 0xF0, CHR 0x9F, CHR 0x8F, CHR 0x9E, CHR 0xEF, CHR 0xB8, CHR 0x8F]
     @ '' Rural delivery may take longer due to remote location''"

definition urban_note :: string where
  "urban_note = [CHR 0xF0, CHR 0x9F, CHR 0x8F, CHR 0x99, CHR 0xEF, CHR 0xB8, CHR 0x8F]
     @ '' Urban delivery benefits from faster logistics networks''"

definition home_garden_note :: string where
  "home_garden_note = [CHR 0xF0, CHR 0x9F, CHR 0x8F, CHR 0xA1]
     @ '' Large items may require special handling and longer processing time''"

definition books_note :: string where
  "books_note = [CHR 0xF0, CHR 0x9F, CHR 0x93, CHR 0x9A]
     @ '' Books are typically lightweight and process quickly''"

definition extended_note :: string where
  "extended_note = [CHR 0xE2, CHR 0x8F, CHR 0xB3]
     @ '' Extended delivery time - consider express shipping for faster delivery''"

definition fast_note :: string where
  "fast_note = [CHR 0xE2, CHR 0x9A, CHR 0xA1]
     @ '' Fast delivery expected - your order will arrive quickly!''"

text \<open>The list \<^verbatim>\<open>insights\<close> is threaded through the four \<^verbatim>\<open>if\<close>/\<^verbatim>\<open>elif\<close> statements.\<close>

definition get_delivery_insights :: "string \<Rightarrow> string \<Rightarrow> string \<Rightarrow> real \<Rightarrow> string list" where
  "get_delivery_insights category location shipping predicted_hours =
     (let insights = [];
          insights = (if shipping = ''Overnight'' then insights @ [overnight_note]
                      else if shipping = ''Economy'' then insights @ [economy_note]
                      else insights);
          insights = (if location = ''Rural'' then insights @ [rural_note]
                      else if location = ''Urban'' then insights @ [urban_note]
                      else insights);
          insights = (if category = ''Home & Garden'' then insights @ [home_garden_note]
                      else if category = ''Books'' then insights @ [books_note]
                      else insights);
          insights = (if predicted_hours > 72 then insights @ [extended_note]
                      else if predicted_hours < 24 then insights @ [fast_note]
                      else insights)
      in insights)"

subsection \<open>Vocabulary of the specification\<close>

text \<open>
  The four rule groups of the insight engine in the words of the specification: each
  group looks at one input and yields the list of notes it contributes.
\<close>

definition shipping_rule :: "string \<Rightarrow> string list" where
  "shipping_rule shipping =
     (if shipping = ''Overnight'' then [overnight_note]
      else if shipping = ''Economy'' then [economy_note]
      else [])"

definition location_rule :: "string \<Rightarrow> string list" where
  "location_rule location =
     (if location = ''Rural'' then [rural_note]
      else if location = ''Urban'' then [urban_note]
      else [])"

definition category_rule :: "string \<Rightarrow> string list" where
  "category_rule category =
     (if category = ''Home & Garden'' then [home_garden_note]
      else if category = ''Books'' then [books_note]
      else [])"

definition duration_rule :: "real \<Rightarrow> string list" where
  "duration_rule predicted_hours =
     (if predicted_hours > 72 then [extended_note]
      else if predicted_hours < 24 then [fast_note]
      else [])"

text \<open>The combination a row of the sample data stands for.\<close>

definition row_key :: "sample_row \<Rightarrow> string \<times> string \<times> string" where
  "row_key r = (row_category r, row_location r, row_shipping r)"

text \<open>
  \<open>rows_from_calls rng k rows\<close>: the delivery time of the \<open>i\<close>-th row is what the
  estimator returns for that row's combination on the draw number \<open>k + i\<close>, so that
  consecutive rows come from consecutive estimator calls, one call each.
\<close>

fun rows_from_calls :: "(nat \<Rightarrow> real) \<Rightarrow> nat \<Rightarrow> sample_row list \<Rightarrow> bool" where
  "rows_from_calls rng k [] = True"
| "rows_from_calls rng k (r # rs) =
     (predict_delivery_time (rng k) (row_category r) (row_location r) (row_shipping r)
        = Inr (row_delivery_time r)
      \<and> rows_from_calls rng (Suc k) rs)"

section \<open>Properties\<close>

subsection \<open>Binary64 rounding\<close>

lemma round_half_even_ge_floor: "\<lfloor>y\<rfloor> \<le> round_half_even y"
  by (simp add: round_half_even_def Let_def)

lemma round_half_even_le_floor_Suc: "round_half_even y \<le> \<lfloor>y\<rfloor> + 1"
  by (simp add: round_half_even_def Let_def)

lemma round_half_even_of_int [simp]: "round_half_even (of_int n) = n"
  by (simp add: round_half_even_def)

lemma round_half_even_lower:
  assumes "of_int n \<le> y"
  shows "n \<le> round_half_even y"
proof -
  have "n \<le> \<lfloor>y\<rfloor>"
    using assms by (simp add: le_floor_iff)
  then show ?thesis
    using round_half_even_ge_floor [of y] by linarith
qed

lemma round_half_even_upper:
  assumes "y \<le> of_int n"
  shows "round_half_even y \<le> n"
proof (cases "y = of_int n")
  case True
  then show ?thesis by simp
next
  case False
  then have "y < of_int n"
    using assms by simp
  then have "\<lfloor>y\<rfloor> < n"
    by (simp add: floor_less_iff)
  then show ?thesis
    using round_half_even_le_floor_Suc [of y] by linarith
qed

lemma round_half_even_mono:
  assumes "a \<le> b"
  shows "round_half_even a \<le> round_half_even b"
proof (cases "\<lfloor>a\<rfloor> = \<lfloor>b\<rfloor>")
  case True
  then show ?thesis
    using assms by (auto simp add: round_half_even_def Let_def)
next
  case False
  moreover have "\<lfloor>a\<rfloor> \<le> \<lfloor>b\<rfloor>"
    using assms by (rule floor_mono)
  ultimately have "\<lfloor>a\<rfloor> + 1 \<le> \<lfloor>b\<rfloor>"
    by linarith
  then show ?thesis
    using round_half_even_le_floor_Suc [of a] round_half_even_ge_floor [of b] by linarith
qed

lemma two_powi_less_imp:
  assumes "(2::real) powi a < 2 powi b"
  shows "a < b"
proof (rule ccontr)
  assume "\<not> a < b"
  then have "(2::real) powi b \<le> 2 powi a"
    by (intro power_int_increasing) auto
  then show False
    using assms by simp
qed

lemma two_powi_diff: "(2::real) powi (a - b) = 2 powi a / 2 powi b"
  by (simp add: power_int_diff)

lemma two_powi_nonneg_int:
  assumes "0 \<le> n"
  shows "(2::real) powi n = of_int (2 ^ nat n)"
  using assms by (simp add: power_int_def)

lemma of_int_two_power_le:
  "(n \<le> 2 ^ k) = ((of_int n :: real) \<le> 2 ^ k)"
  "(2 ^ k \<le> n) = ((2::real) ^ k \<le> of_int n)"
  "(n < 2 ^ k) = ((of_int n :: real) < 2 ^ k)"
  by (metis of_int_le_iff of_int_numeral of_int_power,
      metis of_int_le_iff of_int_numeral of_int_power,
      metis of_int_less_iff of_int_numeral of_int_power)

text \<open>The exponent of a positive real.\<close>

lemma binade_lower:
  assumes "0 < x"
  shows "2 powi binade x \<le> x"
proof (cases "1 \<le> x")
  case True
  let ?n = "\<lfloor>x\<rfloor>"
  have n: "0 < ?n"
    using True by simp
  have b: "1 \<le> bitlen ?n"
    using n by (simp add: bitlen_alt_def)
  have "(2::int) ^ nat (bitlen ?n - 1) \<le> ?n"
    using bitlen_bounds [OF n] by simp
  then have "(2::real) ^ nat (bitlen ?n - 1) \<le> of_int ?n"
    by (simp only: of_int_two_power_le)
  also have "\<dots> \<le> x"
    by simp
  finally show ?thesis
    using True b by (simp add: binade_def power_int_def)
next
  case False
  let ?m = "\<lceil>1 / x\<rceil> - 1"
  have y: "1 < 1 / x"
    using False assms by simp
  have m: "0 < ?m"
    using y by (simp add: less_ceiling_iff)
  have "1 / x \<le> of_int \<lceil>1 / x\<rceil>"
    by (rule le_of_int_ceiling)
  also have "\<lceil>1 / x\<rceil> \<le> 2 ^ nat (bitlen ?m)"
    using bitlen_bounds [OF m] by simp
  then have "(of_int \<lceil>1 / x\<rceil> :: real) \<le> 2 ^ nat (bitlen ?m)"
    by (simp only: of_int_two_power_le)
  finally have "1 / x \<le> 2 ^ nat (bitlen ?m)"
    by simp
  then have "1 / 2 ^ nat (bitlen ?m) \<le> x"
    using assms by (simp add: field_simps)
  moreover have "1 \<le> bitlen ?m"
    using m by (simp add: bitlen_alt_def)
  ultimately show ?thesis
    using False by (simp add: binade_def power_int_def inverse_eq_divide power_one_over)
qed

lemma binade_upper:
  assumes "0 < x"
  shows "x < 2 powi (binade x + 1)"
proof (cases "1 \<le> x")
  case True
  let ?n = "\<lfloor>x\<rfloor>"
  have n: "0 < ?n"
    using True by simp
  have b: "1 \<le> bitlen ?n"
    using n by (simp add: bitlen_alt_def)
  have "?n + 1 \<le> 2 ^ nat (bitlen ?n)"
    using bitlen_bounds [OF n] by simp
  then have "(of_int (?n + 1) :: real) \<le> 2 ^ nat (bitlen ?n)"
    by (simp only: of_int_two_power_le)
  moreover have "x < of_int (?n + 1)"
    by linarith
  ultimately have "x < 2 ^ nat (bitlen ?n)"
    by linarith
  then show ?thesis
    using True b by (simp add: binade_def power_int_def)
next
  case False
  let ?m = "\<lceil>1 / x\<rceil> - 1"
  have y: "1 < 1 / x"
    using False assms by simp
  have m: "0 < ?m"
    using y by (simp add: less_ceiling_iff)
  have b: "1 \<le> bitlen ?m"
    using m by (simp add: bitlen_alt_def)
  have "(2::int) ^ nat (bitlen ?m - 1) \<le> ?m"
    using bitlen_bounds [OF m] by simp
  then have "(2::real) ^ nat (bitlen ?m - 1) \<le> of_int ?m"
    by (simp only: of_int_two_power_le)
  also have "(of_int ?m :: real) < 1 / x"
    by linarith
  finally have "(2::real) ^ nat (bitlen ?m - 1) < 1 / x" .
  then have "x < 1 / 2 ^ nat (bitlen ?m - 1)"
    using assms by (simp add: field_simps)
  moreover have "(2::real) powi (- bitlen ?m + 1) = 1 / 2 ^ nat (bitlen ?m - 1)"
  proof (cases "bitlen ?m = 1")
    case True
    then show ?thesis by simp
  next
    case False
    then have "- bitlen ?m + 1 < 0"
      using b by linarith
    moreover have "nat (- (- bitlen ?m + 1)) = nat (bitlen ?m - 1)"
      by simp
    ultimately show ?thesis
      by (simp add: power_int_def inverse_eq_divide power_one_over)
  qed
  ultimately show ?thesis
    using False by (simp add: binade_def)
qed

lemma fl_pos_unfold:
  assumes "0 < x"
  shows "fl x = of_int (round_half_even (x / 2 powi (binade x - 52))) * 2 powi (binade x - 52)"
  using assms by (simp add: fl_def Let_def)

lemma fl_ge_binade:
  assumes "0 < y"
  shows "2 powi binade y \<le> fl y"
proof -
  let ?u = "(2::real) powi (binade y - 52)"
  have u: "0 < ?u"
    by simp
  have eu: "2 powi binade y = 2 ^ 52 * ?u"
    by (simp add: two_powi_diff)
  have "of_int (2 ^ 52) \<le> y / ?u"
    using binade_lower [OF assms] u unfolding eu by (simp add: field_simps)
  then have "2 ^ 52 \<le> round_half_even (y / ?u)"
    by (rule round_half_even_lower)
  then have "(2::real) ^ 52 \<le> of_int (round_half_even (y / ?u))"
    by (simp only: of_int_two_power_le)
  then have "2 ^ 52 * ?u \<le> of_int (round_half_even (y / ?u)) * ?u"
    using u by (simp only: mult_le_cancel_right_pos)
  then show ?thesis
    unfolding fl_pos_unfold [OF assms] eu .
qed

lemma fl_le_binade_Suc:
  assumes "0 < x"
  shows "fl x \<le> 2 powi (binade x + 1)"
proof -
  let ?u = "(2::real) powi (binade x - 52)"
  have u: "0 < ?u"
    by simp
  have eu: "2 powi (binade x + 1) = 2 ^ 53 * ?u"
    by (simp add: two_powi_diff power_int_add)
  have "x / ?u \<le> of_int (2 ^ 53)"
    using binade_upper [OF assms] u unfolding eu by (simp add: field_simps)
  then have "round_half_even (x / ?u) \<le> 2 ^ 53"
    by (rule round_half_even_upper)
  then have "of_int (round_half_even (x / ?u)) \<le> (2::real) ^ 53"
    by (simp only: of_int_two_power_le)
  then have "of_int (round_half_even (x / ?u)) * ?u \<le> 2 ^ 53 * ?u"
    using u by (simp only: mult_le_cancel_right_pos)
  then show ?thesis
    unfolding fl_pos_unfold [OF assms] eu .
qed

text \<open>Rounding is monotone on the positive reals.\<close>

lemma fl_mono:
  assumes x: "0 < x" and le: "x \<le> y"
  shows "fl x \<le> fl y"
proof -
  have y: "0 < y"
    using x le by linarith
  have "2 powi binade x \<le> x"
    using binade_lower [OF x] .
  also have "x \<le> y"
    by (rule le)
  also have "y < 2 powi (binade y + 1)"
    using binade_upper [OF y] .
  finally have "binade x < binade y + 1"
    by (rule two_powi_less_imp)
  then consider "binade x = binade y" | "binade x + 1 \<le> binade y"
    by linarith
  then show ?thesis
  proof cases
    case 1
    let ?u = "(2::real) powi (binade y - 52)"
    have u: "0 < ?u"
      by simp
    have "x / ?u \<le> y / ?u"
      using le u by (intro divide_right_mono) simp_all
    then have "round_half_even (x / ?u) \<le> round_half_even (y / ?u)"
      by (rule round_half_even_mono)
    then have "(of_int (round_half_even (x / ?u)) :: real) \<le> of_int (round_half_even (y / ?u))"
      by (simp only: of_int_le_iff)
    then have "of_int (round_half_even (x / ?u)) * ?u \<le> of_int (round_half_even (y / ?u)) * ?u"
      using u by (simp only: mult_le_cancel_right_pos)
    then show ?thesis
      unfolding fl_pos_unfold [OF x] fl_pos_unfold [OF y] 1 .
  next
    case 2
    have "fl x \<le> 2 powi (binade x + 1)"
      using fl_le_binade_Suc [OF x] .
    also have "\<dots> \<le> 2 powi binade y"
      using 2 by (intro power_int_increasing) auto
    also have "\<dots> \<le> fl y"
      using fl_ge_binade [OF y] .
    finally show ?thesis .
  qed
qed

text \<open>An integer below 2^53 in magnitude is a float.\<close>

lemma fl_of_int:
  assumes m: "\<bar>m\<bar> < 2 ^ 53"
  shows "fl (of_int m) = of_int m"
proof (cases "m = 0")
  case True
  then show ?thesis
    by (simp add: fl_def)
next
  case False
  let ?x = "of_int m :: real"
  have x0: "?x \<noteq> 0"
    using False by simp
  have xp: "0 < \<bar>?x\<bar>"
    using x0 by simp
  let ?e = "binade \<bar>?x\<bar>"
  let ?u = "(2::real) powi (?e - 52)"
  have u: "0 < ?u"
    by simp
  have "2 powi ?e \<le> \<bar>?x\<bar>"
    using binade_lower [OF xp] .
  also have "\<bar>?x\<bar> < 2 ^ 53"
  proof -
    have "(of_int \<bar>m\<bar> :: real) < 2 ^ 53"
      using m by (simp only: of_int_two_power_le)
    then show ?thesis
      by simp
  qed
  also have "\<dots> = 2 powi 53"
    by simp
  finally have "?e < 53"
    by (rule two_powi_less_imp)
  then have k: "0 \<le> 52 - ?e"
    by linarith
  have "?x / ?u = of_int m * 2 powi (52 - ?e)"
    using two_powi_diff [of 0 "?e - 52"] by simp
  also have "\<dots> = of_int (m * 2 ^ nat (52 - ?e))"
    using two_powi_nonneg_int [OF k] by simp
  finally have du: "?x / ?u = of_int (m * 2 ^ nat (52 - ?e))" .
  have "fl ?x = of_int (round_half_even (?x / ?u)) * ?u"
    using x0 by (simp add: fl_def Let_def)
  also have "\<dots> = ?x / ?u * ?u"
    by (simp only: du round_half_even_of_int)
  also have "\<dots> = ?x"
    using u by simp
  finally show ?thesis .
qed

text \<open>Evaluation of the rounding on numerals.\<close>

lemma bitlen_numeral:
  "bitlen (numeral k) = bitlen (numeral k div 2) + 1"
  "bitlen 1 = 1"
  by (subst compute_bitlen, simp)+

lemmas float_eval =
  fl_def binade_def round_half_even_def Let_def bitlen_numeral
  float_mul_def float_add_def float_sub_def float_div_def float_of_int_def

lemma fl_one: "fl 1 = 1"
  using fl_of_int [of 1] by simp

lemma fl_literals_pos: "0 < fl 0.8" "0 < fl 0.3"
  by (simp_all add: float_eval)

text \<open>The smallest product of a base, a location factor and a shipping factor.\<close>

lemma least_raw_time:
  "float_mul (float_mul 24 (fl 0.8)) (fl 0.3) = 6485183463413515 / 2 ^ 50"
  by (simp add: float_eval)

lemma least_predicted_time: "fl (6485183463413515 / 2 ^ 50 * 0.9) = 5836665117072164 / 2 ^ 50"
  by (simp add: float_eval)

lemma fl_5_2: "fl 5.2 = 5854679515581645 / 2 ^ 50"
  by (simp add: float_eval)

subsection \<open>Table lookups\<close>

lemma dict_get_category_times:
  "dict_get category_times c 48 =
     (if c = ''Electronics'' then 48 else if c = ''Clothing'' then 36
      else if c = ''Books'' then 24 else if c = ''Home & Garden'' then 72
      else if c = ''Sports'' then 48 else if c = ''Beauty'' then 36
      else 48)"
  by (simp add: dict_get_def category_times_def)

lemma getitem_location:
  "dict_getitem location_multipliers l =
     (if l = ''Urban'' then Inr (fl 0.8) else if l = ''Suburban'' then Inr (fl 1.0)
      else if l = ''Rural'' then Inr (fl 1.3) else Inl (KeyError l))"
  by (simp add: dict_getitem_def location_multipliers_def)

lemma getitem_shipping:
  "dict_getitem shipping_multipliers s =
     (if s = ''Overnight'' then Inr (fl 0.3) else if s = ''Express'' then Inr (fl 0.6)
      else if s = ''Standard'' then Inr (fl 1.0) else if s = ''Economy'' then Inr (fl 1.4)
      else Inl (KeyError s))"
  by (simp add: dict_getitem_def shipping_multipliers_def)

lemma getitem_location_valid:
  assumes "l \<in> {''Urban'', ''Suburban'', ''Rural''}"
  shows "dict_getitem location_multipliers l =
           Inr (if l = ''Urban'' then fl 0.8 else if l = ''Suburban'' then fl 1.0 else fl 1.3)"
  using assms unfolding getitem_location by auto

lemma getitem_shipping_valid:
  assumes "s \<in> {''Overnight'', ''Express'', ''Standard'', ''Economy''}"
  shows "dict_getitem shipping_multipliers s =
           Inr (if s = ''Overnight'' then fl 0.3 else if s = ''Express'' then fl 0.6
                else if s = ''Standard'' then fl 1.0 else fl 1.4)"
  using assms unfolding getitem_shipping by auto

lemma base_time_lower: "24 \<le> dict_get category_times c 48"
  unfolding dict_get_category_times by simp

lemma base_time_upper: "dict_get category_times c 48 \<le> 72"
  unfolding dict_get_category_times by simp

lemma float_of_int_base_time:
  "float_of_int (dict_get category_times c 48) = of_int (dict_get category_times c 48)"
proof -
  have "\<bar>dict_get category_times c 48\<bar> < 2 ^ 53"
    using base_time_lower [of c] base_time_upper [of c] by simp
  then show ?thesis
    unfolding float_of_int_def by (rule fl_of_int)
qed

lemma predict_unfold:
  "predict_delivery_time v c l s =
     (case dict_getitem location_multipliers l of
        Inl e \<Rightarrow> Inl e
      | Inr lm \<Rightarrow>
          (case dict_getitem shipping_multipliers s of
             Inl e \<Rightarrow> Inl e
           | Inr sm \<Rightarrow>
               Inr (max 2 (py_round
                 (float_mul (float_mul (float_mul (of_int (dict_get category_times c 48)) lm) sm) v)
                 1))))"
  by (simp add: predict_delivery_time_def create_prediction_model_def Let_def
      float_of_int_base_time split: sum.splits)

subsection \<open>The estimator\<close>

text \<open>The factor a valid location or shipping method is mapped to.\<close>

lemma location_factor:
  assumes "(l, lf) \<in> set [(''Urban'', 0.8), (''Suburban'', 1.0), (''Rural'', 1.3)]"
  shows "dict_getitem location_multipliers l = Inr (fl lf) \<and> 0.8 \<le> lf"
proof -
  from assms have "l = ''Urban'' \<and> lf = 0.8 \<or> l = ''Suburban'' \<and> lf = 1.0
      \<or> l = ''Rural'' \<and> lf = 1.3"
    by (simp only: list.set insert_iff empty_iff prod.inject simp_thms)
  then show ?thesis
  proof (elim disjE conjE)
    assume 1: "l = ''Urban''" "lf = 0.8"
    show ?thesis unfolding 1 getitem_location by simp
  next
    assume 2: "l = ''Suburban''" "lf = 1.0"
    show ?thesis unfolding 2 getitem_location by simp
  next
    assume 3: "l = ''Rural''" "lf = 1.3"
    show ?thesis unfolding 3 getitem_location by simp
  qed
qed

lemma shipping_factor:
  assumes "(s, sf) \<in> set [(''Overnight'', 0.3), (''Express'', 0.6), (''Standard'', 1.0),
                          (''Economy'', 1.4)]"
  shows "dict_getitem shipping_multipliers s = Inr (fl sf) \<and> 0.3 \<le> sf"
proof -
  from assms have "s = ''Overnight'' \<and> sf = 0.3 \<or> s = ''Express'' \<and> sf = 0.6
      \<or> s = ''Standard'' \<and> sf = 1.0 \<or> s = ''Economy'' \<and> sf = 1.4"
    by (simp only: list.set insert_iff empty_iff prod.inject simp_thms)
  then show ?thesis
  proof (elim disjE conjE)
    assume 1: "s = ''Overnight''" "sf = 0.3"
    show ?thesis unfolding 1 getitem_shipping by simp
  next
    assume 2: "s = ''Express''" "sf = 0.6"
    show ?thesis unfolding 2 getitem_shipping by simp
  next
    assume 3: "s = ''Standard''" "sf = 1.0"
    show ?thesis unfolding 3 getitem_shipping by simp
  next
    assume 4: "s = ''Economy''" "sf = 1.4"
    show ?thesis unfolding 4 getitem_shipping by simp
  qed
qed

text \<open>
  C1. For each of the seven categories with its base hours, each of the three locations
  with its factor, each of the four shipping methods with its factor, and a float
  variation \<open>j\<close> between 0.9 and 1.1, the estimator returns
  \<open>max 2 (round (base * locationFactor * shippingFactor * j, 1))\<close>, the factors being
  the floats the decimals denote and the products the program's float products.
\<close>

theorem predict_formula:
  assumes "(c, b) \<in> set [(''Electronics'', 48), (''Clothing'', 36), (''Books'', 24),
                          (''Home & Garden'', 72), (''Sports'', 48), (''Beauty'', 36),
                          (''Toys'', 48)]"
    and "(l, lf) \<in> set [(''Urban'', 0.8), (''Suburban'', 1.0), (''Rural'', 1.3)]"
    and "(s, sf) \<in> set [(''Overnight'', 0.3), (''Express'', 0.6), (''Standard'', 1.0),
                          (''Economy'', 1.4)]"
    and "is_float j" and "0.9 \<le> j" and "j \<le> 1.1"
  shows "predict_delivery_time j c l s
           = Inr (max 2 (py_round
               (float_mul (float_mul (float_mul (of_int b) (fl lf)) (fl sf)) j) 1))"
proof -
  have b: "dict_get category_times c 48 = b"
    using assms(1) unfolding dict_get_category_times by auto
  have l: "dict_getitem location_multipliers l = Inr (fl lf)"
    using location_factor [OF assms(2)] by simp
  have s: "dict_getitem shipping_multipliers s = Inr (fl sf)"
    using shipping_factor [OF assms(3)] by simp
  show ?thesis
    unfolding predict_unfold b l s by simp
qed

theorem predict_formula_witness:
  "(''Clothing'', 36) \<in> set [(''Electronics'', 48), (''Clothing'', 36), (''Books'', 24),
                          (''Home & Garden'', 72), (''Sports'', 48), (''Beauty'', 36),
                          (''Toys'', 48::int)]
   \<and> (''Suburban'', 1.0) \<in> set [(''Urban'', 0.8), (''Suburban'', 1.0), (''Rural'', 1.3::real)]
   \<and> (''Express'', 0.6) \<in> set [(''Overnight'', 0.3), (''Express'', 0.6), (''Standard'', 1.0),
                          (''Economy'', 1.4::real)]
   \<and> is_float 1.0625 \<and> (0.9::real) \<le> 1.0625 \<and> (1.0625::real) \<le> 1.1
   \<and> predict_delivery_time 1.0625 ''Clothing'' ''Suburban'' ''Express'' = Inr (fl 22.9)"
  using predict_formula [of "''Clothing''" 36 "''Suburban''" "1.0" "''Express''" "0.6" "1.0625"]
  by (simp add: py_round_def is_float_def float_eval)

text \<open>
  C2. For any category string, a valid location and a valid shipping method, every one
  of any number of calls, each with its own variation between 0.9 and 1.1, returns a
  value of at least 2. The list \<open>js\<close> holds the variations of the repeated calls.
\<close>

theorem predict_at_least_two:
  assumes "l \<in> {''Urban'', ''Suburban'', ''Rural''}"
    and "s \<in> {''Overnight'', ''Express'', ''Standard'', ''Economy''}"
    and "\<forall>j \<in> set js. 0.9 \<le> j \<and> j \<le> 1.1"
  shows "\<forall>j \<in> set js. \<exists>t. predict_delivery_time j c l s = Inr t \<and> 2 \<le> t"
  unfolding predict_unfold getitem_location_valid [OF assms(1)]
    getitem_shipping_valid [OF assms(2)]
  by simp

theorem predict_at_least_two_witness:
  "''Urban'' \<in> {''Urban'', ''Suburban'', ''Rural''}
   \<and> ''Overnight'' \<in> {''Overnight'', ''Express'', ''Standard'', ''Economy''}
   \<and> (0.9::real) \<le> 0.9 \<and> (0.9::real) \<le> 1.1 \<and> (0.9::real) \<le> 1.1 \<and> (1.1::real) \<le> 1.1
   \<and> (\<exists>t. predict_delivery_time 0.9 ''Books'' ''Urban'' ''Overnight'' = Inr t \<and> 2 \<le> t)
   \<and> (\<exists>t. predict_delivery_time 1.1 ''Books'' ''Urban'' ''Overnight'' = Inr t \<and> 2 \<le> t)"
  using predict_at_least_two [of "''Urban''" "''Overnight''" "[0.9, 1.1]" "''Books''"]
  by simp

text \<open>
  C3. Whatever the category and the variation, the estimator fails with the lookup
  error when the location is not one of the three locations or the shipping method is
  not one of the four; no default is substituted. The error names the offending key,
  the location first. In particular it fails for the location Moon and for the shipping
  method Teleport.
\<close>

theorem predict_unknown_key_fails:
  assumes "l \<notin> {''Urban'', ''Suburban'', ''Rural''}
           \<or> s \<notin> {''Overnight'', ''Express'', ''Standard'', ''Economy''}"
  shows "predict_delivery_time j c l s
           = Inl (KeyError (if l \<notin> {''Urban'', ''Suburban'', ''Rural''} then l else s))"
  using assms unfolding predict_unfold getitem_location getitem_shipping
  by auto

theorem predict_unknown_key_fails_witness:
  "''Moon'' \<notin> {''Urban'', ''Suburban'', ''Rural''}
   \<and> predict_delivery_time 1 ''Books'' ''Moon'' ''Standard'' = Inl (KeyError ''Moon'')
   \<and> ''Teleport'' \<notin> {''Overnight'', ''Express'', ''Standard'', ''Economy''}
   \<and> predict_delivery_time 1 ''Books'' ''Urban'' ''Teleport'' = Inl (KeyError ''Teleport'')"
  using predict_unknown_key_fails [of "''Moon''" "''Standard''" 1 "''Books''"]
    predict_unknown_key_fails [of "''Urban''" "''Teleport''" 1 "''Books''"]
  by simp

text \<open>
  C4. For a valid location and shipping method with their factors and any float
  variation, a category string outside the seven categories does not make the estimator
  fail: it computes with the
  base 48, returning \<open>max 2 (round (48 * locationFactor * shippingFactor * j, 1))\<close> in
  the program's float arithmetic, which is the result that Electronics, Sports and Toys
  give for the same location, shipping method and variation.
\<close>

theorem predict_unknown_category_default:
  assumes "c \<notin> {''Electronics'', ''Clothing'', ''Books'', ''Home & Garden'', ''Sports'',
                 ''Beauty'', ''Toys''}"
    and "(l, lf) \<in> set [(''Urban'', 0.8), (''Suburban'', 1.0), (''Rural'', 1.3)]"
    and "(s, sf) \<in> set [(''Overnight'', 0.3), (''Express'', 0.6), (''Standard'', 1.0),
                          (''Economy'', 1.4)]"
    and "is_float j"
  shows "predict_delivery_time j c l s
           = Inr (max 2 (py_round (float_mul (float_mul (float_mul 48 (fl lf)) (fl sf)) j) 1))
         \<and> predict_delivery_time j ''Electronics'' l s = predict_delivery_time j c l s
         \<and> predict_delivery_time j ''Sports'' l s = predict_delivery_time j c l s
         \<and> predict_delivery_time j ''Toys'' l s = predict_delivery_time j c l s"
proof -
  have b: "dict_get category_times c 48 = 48"
    using assms(1) unfolding dict_get_category_times by simp
  have e: "dict_get category_times ''Electronics'' 48 = 48"
      "dict_get category_times ''Sports'' 48 = 48"
      "dict_get category_times ''Toys'' 48 = 48"
    unfolding dict_get_category_times by simp_all
  have l: "dict_getitem location_multipliers l = Inr (fl lf)"
    using location_factor [OF assms(2)] by simp
  have s: "dict_getitem shipping_multipliers s = Inr (fl sf)"
    using shipping_factor [OF assms(3)] by simp
  show ?thesis
    unfolding predict_unfold b e l s by simp
qed

theorem predict_unknown_category_default_witness:
  "''Furniture'' \<notin> {''Electronics'', ''Clothing'', ''Books'', ''Home & Garden'', ''Sports'',
                 ''Beauty'', ''Toys''}
   \<and> (''Urban'', 0.8) \<in> set [(''Urban'', 0.8), (''Suburban'', 1.0), (''Rural'', 1.3::real)]
   \<and> (''Express'', 0.6) \<in> set [(''Overnight'', 0.3), (''Express'', 0.6), (''Standard'', 1.0),
                          (''Economy'', 1.4::real)]
   \<and> is_float 1
   \<and> predict_delivery_time 1 ''Furniture'' ''Urban'' ''Express'' = Inr 23
   \<and> predict_delivery_time 1 ''Electronics'' ''Urban'' ''Express'' = Inr 23
   \<and> predict_delivery_time 1 ''Sports'' ''Urban'' ''Express'' = Inr 23
   \<and> predict_delivery_time 1 ''Toys'' ''Urban'' ''Express'' = Inr 23"
  using predict_unknown_category_default [of "''Furniture''" "''Urban''" "0.8" "''Express''" "0.6" 1]
  by (simp add: py_round_def is_float_def float_eval)

text \<open>
  A predicted time of at least 5.184 rounds, at one decimal, to a float of at least 5.2.
\<close>

lemma py_round_lower:
  assumes "5.184 \<le> x"
  shows "5.2 \<le> py_round x 1"
proof -
  let ?y = "x * 10"
  have y: "51.84 \<le> ?y"
    using assms by simp
  have f: "51 \<le> \<lfloor>?y\<rfloor>"
    using y by (simp add: le_floor_iff)
  have "52 \<le> round_half_even ?y"
  proof (cases "\<lfloor>?y\<rfloor> = 51")
    case True
    then have "1 / 2 < ?y - of_int \<lfloor>?y\<rfloor>"
      using y by simp
    then show ?thesis
      using True by (simp add: round_half_even_def Let_def)
  next
    case False
    then have "52 \<le> \<lfloor>?y\<rfloor>"
      using f by linarith
    then show ?thesis
      using round_half_even_ge_floor [of ?y] by linarith
  qed
  then have "52 \<le> (of_int (round_half_even ?y) :: real)"
    by linarith
  then have "5.2 \<le> (of_int (round_half_even ?y) :: real) / 10"
    by simp
  then have "fl 5.2 \<le> fl (of_int (round_half_even ?y) / 10)"
    by (intro fl_mono) simp_all
  then show ?thesis
    unfolding fl_5_2 by (simp add: py_round_def)
qed

text \<open>
  C9. For any category string (the base is the table's entry, or 48), a valid location
  with its factor, a valid shipping method with its factor and a float variation \<open>j\<close>
  between 0.9 and 1.1, the float the program holds before the floor is at least
  \<open>24 * 0.8 * 0.3 * 0.9 = 5.184\<close>, above 2; so the estimator returns the rounded value
  itself, and that is at least 5.2.
\<close>

theorem predict_floor_inactive:
  assumes "(l, lf) \<in> set [(''Urban'', 0.8), (''Suburban'', 1.0), (''Rural'', 1.3)]"
    and "(s, sf) \<in> set [(''Overnight'', 0.3), (''Express'', 0.6), (''Standard'', 1.0),
                          (''Economy'', 1.4)]"
    and "is_float j" and "0.9 \<le> j" and "j \<le> 1.1"
  shows "24 * 0.8 * 0.3 * 0.9
           \<le> float_mul (float_mul (float_mul (of_int (dict_get category_times c 48)) (fl lf))
                 (fl sf)) j
         \<and> 24 * 0.8 * 0.3 * 0.9 = (5.184 :: real)
         \<and> 2 < float_mul (float_mul (float_mul (of_int (dict_get category_times c 48)) (fl lf))
                 (fl sf)) j
         \<and> predict_delivery_time j c l s
              = Inr (py_round
                  (float_mul (float_mul (float_mul (of_int (dict_get category_times c 48))
                     (fl lf)) (fl sf)) j) 1)
         \<and> 5.2 \<le> py_round
                  (float_mul (float_mul (float_mul (of_int (dict_get category_times c 48))
                     (fl lf)) (fl sf)) j) 1"
proof -
  define b :: real where "b = of_int (dict_get category_times c 48)"
  define pre where "pre = float_mul (float_mul (float_mul b (fl lf)) (fl sf)) j"
  have l: "dict_getitem location_multipliers l = Inr (fl lf)" and lf: "0.8 \<le> lf"
    using location_factor [OF assms(1)] by simp_all
  have s: "dict_getitem shipping_multipliers s = Inr (fl sf)" and sf: "0.3 \<le> sf"
    using shipping_factor [OF assms(2)] by simp_all
  have b: "24 \<le> b"
    using base_time_lower [of c] unfolding b_def by linarith
  have flf: "fl 0.8 \<le> fl lf"
    using lf by (intro fl_mono) simp_all
  have fsf: "fl 0.3 \<le> fl sf"
    using sf by (intro fl_mono) simp_all
  have "24 * fl 0.8 \<le> b * fl lf"
    using mult_mono [OF b flf] b fl_literals_pos by simp
  then have 1: "float_mul 24 (fl 0.8) \<le> float_mul b (fl lf)"
    unfolding float_mul_def using fl_literals_pos by (intro fl_mono) simp_all
  have p1: "0 < float_mul 24 (fl 0.8)"
    by (simp add: float_eval)
  have "float_mul 24 (fl 0.8) * fl 0.3 \<le> float_mul b (fl lf) * fl sf"
    using mult_mono [OF 1 fsf] p1 1 fl_literals_pos by simp
  then have "float_mul (float_mul 24 (fl 0.8)) (fl 0.3) \<le> float_mul (float_mul b (fl lf)) (fl sf)"
    unfolding float_mul_def [of "float_mul 24 (fl 0.8)"] float_mul_def [of "float_mul b (fl lf)"]
    using p1 fl_literals_pos by (intro fl_mono) simp_all
  then have 2: "6485183463413515 / 2 ^ 50 \<le> float_mul (float_mul b (fl lf)) (fl sf)"
    unfolding least_raw_time .
  have "6485183463413515 / 2 ^ 50 * 0.9 \<le> float_mul (float_mul b (fl lf)) (fl sf) * j"
    using mult_mono [OF 2 assms(4)] 2 by simp
  then have "fl (6485183463413515 / 2 ^ 50 * 0.9) \<le> pre"
    unfolding pre_def float_mul_def [of _ j] by (intro fl_mono) simp_all
  then have pre: "5.184 \<le> pre"
    unfolding least_predicted_time by simp
  have r: "5.2 \<le> py_round pre 1"
    using py_round_lower [OF pre] .
  have "max 2 (py_round pre 1) = py_round pre 1"
    using r by simp
  moreover have "predict_delivery_time j c l s = Inr (max 2 (py_round pre 1))"
    unfolding predict_unfold l s pre_def b_def by simp
  ultimately have p: "predict_delivery_time j c l s = Inr (py_round pre 1)"
    by simp
  show ?thesis
    using pre r p unfolding pre_def b_def by simp
qed

theorem predict_floor_inactive_witness:
  "(''Urban'', 0.8) \<in> set [(''Urban'', 0.8), (''Suburban'', 1.0), (''Rural'', 1.3::real)]
   \<and> (''Overnight'', 0.3) \<in> set [(''Overnight'', 0.3), (''Express'', 0.6), (''Standard'', 1.0),
                          (''Economy'', 1.4::real)]
   \<and> is_float 1.015625 \<and> (0.9::real) \<le> 1.015625 \<and> (1.015625::real) \<le> 1.1
   \<and> predict_delivery_time 1.015625 ''Books'' ''Urban'' ''Overnight'' = Inr (fl 5.9)"
  using predict_floor_inactive [of "''Urban''" "0.8" "''Overnight''" "0.3" "1.015625" "''Books''"]
  by (simp add: dict_get_category_times py_round_def is_float_def float_eval)

subsection \<open>Readable durations\<close>

lemma py_int_nonneg: "0 \<le> x \<Longrightarrow> py_int x = \<lfloor>x\<rfloor>"
  by (simp add: py_int_def)

lemma py_int_of_int: "py_int (of_int k) = k"
  by (simp add: py_int_def)

text \<open>
  Below 2^53 the float floor division by 24 is the exact floor of the quotient, and
  the float remainder is the exact remainder.
\<close>

lemma fmod_24:
  assumes "0 \<le> h"
  shows "fmod h 24 = h - 24 * of_int \<lfloor>h / 24\<rfloor>"
  using assms by (simp add: fmod_def py_int_nonneg)

lemma fmod_24_nonneg:
  assumes "0 \<le> h"
  shows "0 \<le> fmod h 24"
proof -
  have "of_int \<lfloor>h / 24\<rfloor> \<le> h / 24"
    by (rule of_int_floor_le)
  then show ?thesis
    unfolding fmod_24 [OF assms] by simp
qed

lemma py_mod_24:
  assumes "0 \<le> h"
  shows "py_mod h 24 = h - 24 * of_int \<lfloor>h / 24\<rfloor>"
  using fmod_24_nonneg [OF assms] fmod_24 [OF assms] by (simp add: py_mod_def Let_def)

lemma py_floordiv_24:
  assumes "24 \<le> h" and "h < 2 ^ 53"
  shows "py_floordiv h 24 = of_int \<lfloor>h / 24\<rfloor>"
proof -
  let ?q = "\<lfloor>h / 24\<rfloor>"
  have h: "0 \<le> h"
    using assms(1) by simp
  have q1: "1 \<le> ?q"
    using assms(1) by (simp add: le_floor_iff)
  have "of_int ?q \<le> h / 24"
    by (rule of_int_floor_le)
  then have qh: "of_int (24 * ?q) \<le> h"
    by simp
  then have "(of_int (24 * ?q) :: real) < 2 ^ 53"
    using assms(2) by linarith
  then have q24: "24 * ?q < 2 ^ 53"
    by (simp only: of_int_two_power_le)
  have n24: "0 \<le> 24 * ?q"
    using q1 by linarith
  have a24: "\<bar>24 * ?q\<bar> < 2 ^ 53"
    unfolding abs_of_nonneg [OF n24] by (rule q24)
  have nq: "0 \<le> ?q"
    using q1 by linarith
  have "?q < 2 ^ 53"
    using q24 q1 by linarith
  then have aq: "\<bar>?q\<bar> < 2 ^ 53"
    unfolding abs_of_nonneg [OF nq] .
  have "float_sub h (fmod h 24) = fl (of_int (24 * ?q))"
    unfolding float_sub_def fmod_24 [OF h] by simp
  then have sub: "float_sub h (fmod h 24) = 24 * of_int ?q"
    unfolding fl_of_int [OF a24] by simp
  have quo: "float_div (float_sub h (fmod h 24)) 24 = of_int ?q"
    unfolding sub float_div_def using fl_of_int [OF aq] by simp
  have "?q \<noteq> 0"
    using q1 by linarith
  then have q0: "(of_int ?q :: real) \<noteq> 0"
    by (simp only: of_int_eq_0_iff not_False_eq_True)
  have snap: "float_sub (of_int ?q) (of_int \<lfloor>of_int ?q :: real\<rfloor>) = 0"
    by (simp add: float_sub_def fl_def)
  show ?thesis
    using fmod_24_nonneg [OF h] q0 snap
    by (simp add: py_floordiv_def float_div_mod_def Let_def quo)
qed

text \<open>Evaluation of the decimal rendering on numerals.\<close>

lemma str_int_numeral [simp]:
  "str_int (numeral k) = str_nat (numeral k)"
  "str_int 1 = str_nat 1"
  "str_int 0 = str_nat 0"
  by (simp_all add: str_int_def)

lemma str_nat_numeral [simp]:
  "str_nat (numeral k) =
     (if (numeral k :: nat) < 10 then [digit_char (numeral k)]
      else str_nat (numeral k div 10) @ [digit_char (numeral k mod 10)])"
  "str_nat (Suc 0) = ''1''"
  "str_nat 0 = ''0''"
  by (subst str_nat.simps, simp add: digit_char_def)+

lemma digit_char_simps [simp]:
  "digit_char 0 = CHR ''0''" "digit_char 1 = CHR ''1''" "digit_char 2 = CHR ''2''"
  "digit_char 3 = CHR ''3''" "digit_char 4 = CHR ''4''" "digit_char 5 = CHR ''5''"
  "digit_char 6 = CHR ''6''" "digit_char 7 = CHR ''7''" "digit_char 8 = CHR ''8''"
  "digit_char 9 = CHR ''9''" "digit_char (Suc 0) = CHR ''1''"
  by (simp_all add: digit_char_def)

lemmas duration_eval =
  hours_to_readable_def py_int_def py_floordiv_def py_mod_def float_div_mod_def fmod_def
  float_eval

lemma hours_to_readable_5: "hours_to_readable 5 = ''5 hours''"
  by (simp add: hours_to_readable_def py_int_def)

lemma hours_to_readable_24: "hours_to_readable 24 = ''1 day''"
  by (simp add: duration_eval)

lemma hours_to_readable_36: "hours_to_readable 36 = ''1 day and 12 hours''"
  by (simp add: duration_eval)

lemma hours_to_readable_48: "hours_to_readable 48 = ''2 days''"
  by (simp add: duration_eval)

lemma hours_to_readable_1: "hours_to_readable 1 = ''1 hours''"
  by (simp add: hours_to_readable_def py_int_def)

text \<open>
  C5, as amended. For \<open>0 \<le> hours < 2 ^ 53\<close>: below 24 the result is the truncated
  hour count followed by \<open>hours\<close>; from 24 on, with \<open>days = floor (hours / 24)\<close> and
  \<open>remainder_hours = floor (hours mod 24)\<close>, it is the days alone when the remainder is
  0 and \<open>days and remainder_hours\<close> otherwise, each noun in the plural exactly when its
  count exceeds 1. The readings of 5, 24, 36 and 48 hours are as the specification lists
  them.
\<close>

theorem hours_to_readable_cases:
  assumes "0 \<le> h" and "h < 2 ^ 53"
  shows "hours_to_readable h =
          (if h < 24 then str_int \<lfloor>h\<rfloor> @ '' hours''
           else (let days = \<lfloor>h / 24\<rfloor>;
                     remainder_hours = \<lfloor>h - 24 * of_int \<lfloor>h / 24\<rfloor>\<rfloor>
                 in if remainder_hours = 0
                    then str_int days @ (if days > 1 then '' days'' else '' day'')
                    else str_int days @ (if days > 1 then '' days'' else '' day'')
                         @ '' and '' @ str_int remainder_hours
                         @ (if remainder_hours > 1 then '' hours'' else '' hour'')))
        \<and> hours_to_readable 5 = ''5 hours''
        \<and> hours_to_readable 24 = ''1 day''
        \<and> hours_to_readable 36 = ''1 day and 12 hours''
        \<and> hours_to_readable 48 = ''2 days''"
proof -
  have general: "hours_to_readable h =
          (if h < 24 then str_int \<lfloor>h\<rfloor> @ '' hours''
           else (let days = \<lfloor>h / 24\<rfloor>;
                     remainder_hours = \<lfloor>h - 24 * of_int \<lfloor>h / 24\<rfloor>\<rfloor>
                 in if remainder_hours = 0
                    then str_int days @ (if days > 1 then '' days'' else '' day'')
                    else str_int days @ (if days > 1 then '' days'' else '' day'')
                         @ '' and '' @ str_int remainder_hours
                         @ (if remainder_hours > 1 then '' hours'' else '' hour'')))"
  proof (cases "h < 24")
    case True
    then show ?thesis
      using py_int_nonneg [OF assms(1)] by (simp add: hours_to_readable_def)
  next
    case False
    then have h24: "24 \<le> h"
      by simp
    have "0 \<le> h - 24 * of_int \<lfloor>h / 24\<rfloor>"
      using fmod_24_nonneg [OF assms(1)] unfolding fmod_24 [OF assms(1)] .
    then have m: "py_int (py_mod h 24) = \<lfloor>h - 24 * of_int \<lfloor>h / 24\<rfloor>\<rfloor>"
      unfolding py_mod_24 [OF assms(1)] by (rule py_int_nonneg)
    have d: "py_int (py_floordiv h 24) = \<lfloor>h / 24\<rfloor>"
      unfolding py_floordiv_24 [OF h24 assms(2)] by (rule py_int_of_int)
    show ?thesis
      unfolding hours_to_readable_def m d using False by (simp add: Let_def)
  qed
  then show ?thesis
    using hours_to_readable_5 hours_to_readable_24 hours_to_readable_36 hours_to_readable_48
    by simp
qed

theorem hours_to_readable_cases_witness:
  "(0::real) \<le> 25.5 \<and> (25.5::real) < 2 ^ 53
   \<and> hours_to_readable 25.5 = ''1 day and 1 hour''"
  using hours_to_readable_cases [of "25.5"]
  by simp

text \<open>
  The claim as stated, for every non-negative hours value, fails: at \<open>10 ^ 20\<close> hours
  the float floor division is rounded, and the program renders 4166666666666666496 days
  where the floor of the quotient is 4166666666666666666.
\<close>

theorem hours_to_readable_exact_floor_counterexample:
  "hours_to_readable (10 ^ 20) = ''4166666666666666496 days and 16 hours''
   \<and> \<lfloor>(10 ^ 20 :: real) / 24\<rfloor> = 4166666666666666666
   \<and> hours_to_readable (10 ^ 20) \<noteq> ''4166666666666666666 days and 16 hours''"
proof -
  have "hours_to_readable (10 ^ 20) = ''4166666666666666496 days and 16 hours''"
    by (simp add: duration_eval)
  then show ?thesis
    by simp
qed

text \<open>
  C10. For \<open>0 \<le> hours < 24\<close> the result is the truncated count followed by the plural
  \<open>hours\<close>, whatever the count; one hour reads \<open>1 hours\<close>.
\<close>

theorem sub_day_always_plural:
  assumes "0 \<le> h" and "h < 24"
  shows "hours_to_readable h = str_int \<lfloor>h\<rfloor> @ '' hours''
         \<and> (\<exists>front. hours_to_readable h = front @ ''hours'')
         \<and> hours_to_readable 1 = ''1 hours''"
proof -
  have "hours_to_readable h = str_int \<lfloor>h\<rfloor> @ '' hours''"
    using assms by (simp add: hours_to_readable_def py_int_nonneg)
  moreover have "str_int \<lfloor>h\<rfloor> @ '' hours'' = (str_int \<lfloor>h\<rfloor> @ '' '') @ ''hours''"
    by simp
  ultimately show ?thesis
    using hours_to_readable_1 by metis
qed

theorem sub_day_always_plural_witness:
  "(0::real) \<le> 1.5 \<and> (1.5::real) < 24 \<and> hours_to_readable 1.5 = ''1 hours''"
  using sub_day_always_plural [of "1.5"]
  by simp

subsection \<open>Insights\<close>

text \<open>
  C6. The insights are a function of the four inputs alone: the concatenation, in the
  order shipping, location, category, duration, of what the four rule groups contribute,
  each at most one note. The duration group gives the extended-delivery note exactly
  above 72 hours, the fast-delivery note exactly below 24 hours, and nothing exactly on
  the range from 24 to 72 inclusive. Books, Urban, Overnight at 10 hours yields the
  overnight, urban, books and fast-delivery notes in that order; Electronics, Suburban,
  Standard at 50 hours yields no note.
\<close>

theorem insights_rule_groups:
  "get_delivery_insights c l s h
     = shipping_rule s @ location_rule l @ category_rule c @ duration_rule h
   \<and> length (shipping_rule s) \<le> 1 \<and> length (location_rule l) \<le> 1
   \<and> length (category_rule c) \<le> 1 \<and> length (duration_rule h) \<le> 1
   \<and> (duration_rule h = [extended_note]) = (72 < h)
   \<and> (duration_rule h = [fast_note]) = (h < 24)
   \<and> (duration_rule h = []) = (24 \<le> h \<and> h \<le> 72)
   \<and> get_delivery_insights ''Books'' ''Urban'' ''Overnight'' 10
        = [overnight_note, urban_note, books_note, fast_note]
   \<and> get_delivery_insights ''Electronics'' ''Suburban'' ''Standard'' 50 = []"
proof -
  have ne: "extended_note \<noteq> fast_note"
    by (simp add: extended_note_def fast_note_def)
  have 1: "get_delivery_insights c l s h
     = shipping_rule s @ location_rule l @ category_rule c @ duration_rule h"
    by (simp add: get_delivery_insights_def shipping_rule_def location_rule_def
        category_rule_def duration_rule_def)
  have 2: "length (shipping_rule s) \<le> 1" "length (location_rule l) \<le> 1"
      "length (category_rule c) \<le> 1" "length (duration_rule h) \<le> 1"
    by (simp_all add: shipping_rule_def location_rule_def category_rule_def
        duration_rule_def)
  have 3: "(duration_rule h = [extended_note]) = (72 < h)"
      "(duration_rule h = [fast_note]) = (h < 24)"
      "(duration_rule h = []) = (24 \<le> h \<and> h \<le> 72)"
    using ne by (auto simp add: duration_rule_def)
  have 4: "get_delivery_insights ''Books'' ''Urban'' ''Overnight'' 10
        = [overnight_note, urban_note, books_note, fast_note]"
    by (simp add: get_delivery_insights_def)
  have 5: "get_delivery_insights ''Electronics'' ''Suburban'' ''Standard'' 50 = []"
    by (simp add: get_delivery_insights_def)
  show ?thesis
    using 1 2 3 4 5 by blast
qed

subsection \<open>Sample data\<close>

lemma rows_from_calls_append:
  "rows_from_calls rng k (xs @ ys)
     = (rows_from_calls rng k xs \<and> rows_from_calls rng (k + length xs) ys)"
  by (induction xs arbitrary: k) auto

lemma set_locations: "set locations = {''Urban'', ''Suburban'', ''Rural''}"
  by (auto simp add: locations_def)

lemma set_shipping_methods:
  "set shipping_methods = {''Overnight'', ''Express'', ''Standard'', ''Economy''}"
  by (auto simp add: shipping_methods_def)

lemma predict_valid:
  assumes "l \<in> set locations" and "s \<in> set shipping_methods"
  shows "\<exists>t. predict_delivery_time j c l s = Inr t"
  using assms unfolding set_locations set_shipping_methods predict_unfold
  by (simp add: getitem_location_valid getitem_shipping_valid)

text \<open>
  Each loop appends to \<open>data\<close> one row per combination it runs through, in its
  iteration order, and advances the draw counter by the number of rows.
\<close>

lemma shipping_loop_rows:
  assumes "l \<in> set locations" and "set ss \<subseteq> set shipping_methods"
  shows "\<exists>new. shipping_loop rng c l ss (data, k) = Inr (data @ new, k + length ss)
           \<and> map row_key new = map (Pair c) (map (Pair l) ss)
           \<and> rows_from_calls rng k new"
  using assms(2)
proof (induction ss arbitrary: data k)
  case Nil
  then show ?case by simp
next
  case (Cons s ss)
  then have s: "s \<in> set shipping_methods" and ss: "set ss \<subseteq> set shipping_methods"
    by simp_all
  obtain t where t: "predict_delivery_time (rng k) c l s = Inr t"
    using predict_valid [OF assms(1) s] by blast
  let ?r = "\<lparr>row_category = c, row_location = l, row_shipping = s, row_delivery_time = t\<rparr>"
  obtain new where new:
      "shipping_loop rng c l ss (data @ [?r], Suc k)
         = Inr ((data @ [?r]) @ new, Suc k + length ss)"
      "map row_key new = map (Pair c) (map (Pair l) ss)"
      "rows_from_calls rng (Suc k) new"
    using Cons.IH [OF ss, of "data @ [?r]" "Suc k"] by blast
  have key: "row_key ?r = (c, l, s)"
    by (simp add: row_key_def)
  show ?case
    using new t key by (intro exI [of _ "?r # new"]) simp
qed

lemma location_loop_rows:
  assumes "set ls \<subseteq> set locations"
  shows "\<exists>new. location_loop rng c ls (data, k)
             = Inr (data @ new, k + length ls * length shipping_methods)
           \<and> map row_key new = map (Pair c) (List.product ls shipping_methods)
           \<and> rows_from_calls rng k new"
  using assms
proof (induction ls arbitrary: data k)
  case Nil
  then show ?case by simp
next
  case (Cons l ls)
  then have l: "l \<in> set locations" and ls: "set ls \<subseteq> set locations"
    by simp_all
  obtain new1 where new1:
      "shipping_loop rng c l shipping_methods (data, k)
         = Inr (data @ new1, k + length shipping_methods)"
      "map row_key new1 = map (Pair c) (map (Pair l) shipping_methods)"
      "rows_from_calls rng k new1"
    using shipping_loop_rows [OF l subset_refl] by blast
  obtain new2 where new2:
      "location_loop rng c ls (data @ new1, k + length shipping_methods)
         = Inr ((data @ new1) @ new2,
                k + length shipping_methods + length ls * length shipping_methods)"
      "map row_key new2 = map (Pair c) (List.product ls shipping_methods)"
      "rows_from_calls rng (k + length shipping_methods) new2"
    using Cons.IH [OF ls] by blast
  have len: "length new1 = length shipping_methods"
    using arg_cong [OF new1(2), of length] by simp
  show ?case
    using new1 new2 len
    by (intro exI [of _ "new1 @ new2"]) (simp add: rows_from_calls_append)
qed

lemma category_loop_rows:
  "\<exists>new. category_loop rng cs (data, k)
             = Inr (data @ new, k + length cs * (length locations * length shipping_methods))
           \<and> map row_key new = List.product cs (List.product locations shipping_methods)
           \<and> rows_from_calls rng k new"
proof (induction cs arbitrary: data k)
  case Nil
  then show ?case by simp
next
  case (Cons c cs)
  let ?n = "length locations * length shipping_methods"
  obtain new1 where new1:
      "location_loop rng c locations (data, k) = Inr (data @ new1, k + ?n)"
      "map row_key new1 = map (Pair c) (List.product locations shipping_methods)"
      "rows_from_calls rng k new1"
    using location_loop_rows [OF subset_refl] by blast
  obtain new2 where new2:
      "category_loop rng cs (data @ new1, k + ?n)
         = Inr ((data @ new1) @ new2, k + ?n + length cs * ?n)"
      "map row_key new2 = List.product cs (List.product locations shipping_methods)"
      "rows_from_calls rng (k + ?n) new2"
    using Cons.IH by blast
  have len: "length new1 = ?n"
    using arg_cong [OF new1(2), of length] by simp
  show ?case
    using new1 new2 len
    by (intro exI [of _ "new1 @ new2"]) (simp add: rows_from_calls_append)
qed

text \<open>
  C7. Whatever the random source returns, \<^verbatim>\<open>generate_sample_data\<close> returns 84 rows.
  Their combinations are the cross-product of the 7 categories, 3 locations and 4
  shipping methods in nested order, category outermost and shipping method innermost,
  so every combination occurs exactly once; the estimator is called once per row, in row
  order, 84 draws in all.
\<close>

theorem generate_sample_data_cross_product:
  "\<exists>rows. generate_sample_data rng = Inr (rows, 84)
      \<and> length rows = 84
      \<and> map row_key rows = List.product categories (List.product locations shipping_methods)
      \<and> distinct (map row_key rows)
      \<and> set (map row_key rows) = set categories \<times> set locations \<times> set shipping_methods
      \<and> rows_from_calls rng 0 rows
      \<and> length categories = 7 \<and> length locations = 3 \<and> length shipping_methods = 4"
proof -
  have n: "length categories = 7" "length locations = 3" "length shipping_methods = 4"
    by (simp_all add: categories_def locations_def shipping_methods_def)
  have d: "distinct categories" "distinct locations" "distinct shipping_methods"
    by (simp_all add: categories_def locations_def shipping_methods_def)
  obtain rows where rows: "generate_sample_data rng = Inr (rows, 84)"
      "map row_key rows = List.product categories (List.product locations shipping_methods)"
      "rows_from_calls rng 0 rows"
    using category_loop_rows [of rng categories "[]" 0] unfolding generate_sample_data_def n
    by auto
  have len: "length rows = 84"
    using arg_cong [OF rows(2), of length] n by simp
  have dist: "distinct (map row_key rows)"
    unfolding rows(2) using d by (intro distinct_product)
  have st: "set (map row_key rows) = set categories \<times> set locations \<times> set shipping_methods"
    unfolding rows(2) by simp
  show ?thesis
    using rows len dist st n by blast
qed

end
